theory Spec2Isabelle
  imports Complex_Main "HOL-Library.AList"
begin

section \<open>Mood lighting controller (src/src/lighting_controller.py)\<close>

text \<open>
  Python floats are modelled as HOL reals and Python's unbounded integers as \<open>int\<close>.
  The wall clock read by \<open>time.time()\<close> and the formatted date of \<open>datetime.now()\<close> are
  inputs of the operations that read them.
\<close>

type_synonym rgb = "int \<times> int \<times> int"

record log_entry =
  log_timestamp :: string
  log_event_type :: string
  log_emotion :: "string option"
  log_color :: "rgb option"

record lighting_controller =
  current_color :: rgb
  target_color :: rgb
  is_on :: bool
  brightness :: real
  transition_speed :: real
  last_update :: real
  session_log :: "log_entry list"

text \<open>\<open>int(x)\<close> on a float: truncation towards zero.\<close>

definition py_int :: "real \<Rightarrow> int" where
  "py_int x = (if 0 \<le> x then \<lfloor>x\<rfloor> else \<lceil>x\<rceil>)"

text \<open>\<open>LightingController.__init__\<close>, with the clock reading \<open>now\<close>.\<close>

definition init :: "real \<Rightarrow> lighting_controller" where
  "init now =
     \<lparr> current_color = (200, 200, 200),
       target_color = (200, 200, 200),
       is_on = False,
       brightness = 7 / 10,
       transition_speed = 1 / 10,
       last_update = now,
       session_log = [] \<rparr>"

definition set_emotion_color :: "lighting_controller \<Rightarrow> rgb \<Rightarrow> bool \<Rightarrow> lighting_controller" where
  "set_emotion_color s color smooth =
     (if smooth then s\<lparr>target_color := color\<rparr>
      else s\<lparr>current_color := color, target_color := color\<rparr>)"

text \<open>
  One channel of the interpolation in \<open>update\<close>: \<open>int(c1 + (c2 - c1) * step)\<close>, the
  expression the source writes once for each of r, g and b.
\<close>

definition interpolate :: "int \<Rightarrow> int \<Rightarrow> real \<Rightarrow> int" where
  "interpolate c1 c2 step = py_int (real_of_int c1 + real_of_int (c2 - c1) * step)"

text \<open>\<open>LightingController.update\<close>, with the clock reading \<open>current_time\<close>.\<close>

definition update :: "lighting_controller \<Rightarrow> real \<Rightarrow> lighting_controller" where
  "update s current_time =
     (let dt = current_time - last_update s;
          s' = (if current_color s \<noteq> target_color s then
                  (case (current_color s, target_color s) of
                     ((r1, g1, b1), (r2, g2, b2)) \<Rightarrow>
                       let step = transition_speed s * dt * 10;
                           r = interpolate r1 r2 step;
                           g = interpolate g1 g2 step;
                           b = interpolate b1 b2 step
                       in if \<bar>r - r2\<bar> < 5 \<and> \<bar>g - g2\<bar> < 5 \<and> \<bar>b - b2\<bar> < 5
                          then s\<lparr>current_color := target_color s\<rparr>
                          else s\<lparr>current_color := (r, g, b)\<rparr>)
                else s)
      in s'\<lparr>last_update := current_time\<rparr>)"

definition get_current_color :: "lighting_controller \<Rightarrow> rgb" where
  "get_current_color s =
     (if \<not> is_on s then (0, 0, 0)
      else (case current_color s of
              (r, g, b) \<Rightarrow>
                (py_int (real_of_int r * brightness s),
                 py_int (real_of_int g * brightness s),
                 py_int (real_of_int b * brightness s))))"

definition set_brightness :: "lighting_controller \<Rightarrow> real \<Rightarrow> lighting_controller" where
  "set_brightness s b = s\<lparr>brightness := max 0 (min 1 b)\<rparr>"

text \<open>\<open>log_event\<close>, with the formatted \<open>datetime.now()\<close> as \<open>stamp\<close>.\<close>

definition log_event ::
  "lighting_controller \<Rightarrow> string \<Rightarrow> string \<Rightarrow> string option \<Rightarrow> rgb option \<Rightarrow> lighting_controller" where
  "log_event s stamp event_type emotion color =
     s\<lparr>session_log := session_log s @
          [\<lparr> log_timestamp = stamp, log_event_type = event_type,
             log_emotion = emotion, log_color = color \<rparr>]\<rparr>"

definition turn_on :: "lighting_controller \<Rightarrow> string \<Rightarrow> lighting_controller" where
  "turn_on s stamp = log_event (s\<lparr>is_on := True\<rparr>) stamp ''lights_on'' None None"

definition turn_off :: "lighting_controller \<Rightarrow> string \<Rightarrow> lighting_controller" where
  "turn_off s stamp = log_event (s\<lparr>is_on := False\<rparr>) stamp ''lights_off'' None None"

section \<open>Emotion detector (src/src/emotion_detector.py)\<close>

text \<open>
  A Python dict is an association list in insertion order with pairwise different keys;
  \<open>dict_get\<close> is \<open>d.get(k, dflt)\<close> and \<open>AList.update\<close> is the assignment \<open>d[k] = v\<close>,
  which keeps the position of a key already present and appends a new one.
\<close>

type_synonym scores = "(string \<times> real) list"

definition dict_get :: "('k \<times> 'v) list \<Rightarrow> 'k \<Rightarrow> 'v \<Rightarrow> 'v" where
  "dict_get d k dflt = (case map_of d k of None \<Rightarrow> dflt | Some v \<Rightarrow> v)"

text \<open>\<open>str.lower()\<close> on the ASCII letters.\<close>

definition lower_char :: "char \<Rightarrow> char" where
  "lower_char c =
     (case map_of (zip ''ABCDEFGHIJKLMNOPQRSTUVWXYZ'' ''abcdefghijklmnopqrstuvwxyz'') c of
        Some l \<Rightarrow> l
      | None \<Rightarrow> c)"

definition lower :: "string \<Rightarrow> string" where
  "lower str = map lower_char str"

definition EMOTION_COLORS :: "(string \<times> rgb) list" where
  "EMOTION_COLORS =
     [(''happy'', (255, 200, 0)),
      (''sad'', (100, 150, 255)),
      (''angry'', (255, 50, 50)),
      (''surprise'', (255, 255, 100)),
      (''fear'', (150, 100, 200)),
      (''disgust'', (100, 200, 100)),
      (''neutral'', (200, 200, 200))]"

record history_entry =
  entry_emotion :: string
  entry_scores :: scores
  entry_color :: rgb

record emotion_detector =
  last_emotion :: "string option"
  emotion_history :: "history_entry list"

definition new_detector :: emotion_detector where
  "new_detector = \<lparr> last_emotion = None, emotion_history = [] \<rparr>"

text \<open>
  What the calls to \<open>cv2.cvtColor\<close> and \<open>DeepFace.analyze\<close> hand to \<open>detect_emotion\<close>: an
  exception with its message, one result dict, or a list of result dicts. Of a result
  dict only the keys \<open>'emotion'\<close> and \<open>'dominant_emotion'\<close> are read; an absent key is
  \<open>None\<close>.
\<close>

record face_result =
  res_emotion :: "scores option"
  res_dominant_emotion :: "string option"

datatype analysis =
    Raised string
  | ResultDict face_result
  | ResultList "face_result list"

record detection =
  det_emotion :: string
  det_dominant_emotion :: string
  det_scores :: scores
  det_color :: rgb
  det_face_detected :: bool
  det_error :: "string option"

text \<open>
  The result that reaches the body of the \<open>try\<close> block, or the message of the exception
  that leaves it: \<open>result[0]\<close> on an empty list raises IndexError.
\<close>

fun first_result :: "analysis \<Rightarrow> string + face_result" where
  "first_result (Raised e) = Inl e"
| "first_result (ResultDict r) = Inr r"
| "first_result (ResultList []) = Inl ''list index out of range''"
| "first_result (ResultList (r # rs)) = Inr r"

text \<open>The history entry that a successful detection appends.\<close>

definition observation :: "face_result \<Rightarrow> history_entry" where
  "observation result =
     (let emotion_scores = (case res_emotion result of None \<Rightarrow> [] | Some sc \<Rightarrow> sc);
          dominant_emotion =
            (case res_dominant_emotion result of None \<Rightarrow> ''neutral'' | Some l \<Rightarrow> l);
          color = dict_get EMOTION_COLORS (lower dominant_emotion) (200, 200, 200)
      in \<lparr> entry_emotion = dominant_emotion, entry_scores = emotion_scores,
           entry_color = color \<rparr>)"

text \<open>\<open>EmotionDetector.detect_emotion\<close>: the returned dict and the detector afterwards.\<close>

definition detect_emotion :: "emotion_detector \<Rightarrow> analysis \<Rightarrow> detection \<times> emotion_detector" where
  "detect_emotion d a =
     (case first_result a of
        Inl e \<Rightarrow>
          (\<lparr> det_emotion = ''none'', det_dominant_emotion = ''none'', det_scores = [],
             det_color = (128, 128, 128), det_face_detected = False, det_error = Some e \<rparr>,
           d)
      | Inr result \<Rightarrow>
          (let entry = observation result;
               appended = emotion_history d @ [entry];
               kept = (if length appended > 30 then tl appended else appended)
           in (\<lparr> det_emotion = entry_emotion entry,
                 det_dominant_emotion = entry_emotion entry,
                 det_scores = entry_scores entry,
                 det_color = entry_color entry,
                 det_face_detected = True, det_error = None \<rparr>,
               d\<lparr>last_emotion := Some (entry_emotion entry), emotion_history := kept\<rparr>)))"

text \<open>The detector after one call of \<open>detect_emotion\<close> per element, in order.\<close>

definition detect_all :: "emotion_detector \<Rightarrow> analysis list \<Rightarrow> emotion_detector" where
  "detect_all d as = foldl (\<lambda>d' a. snd (detect_emotion d' a)) d as"

text \<open>The entries that a run of detections records: one for each call that does not fail.\<close>

definition recorded :: "analysis list \<Rightarrow> history_entry list" where
  "recorded as =
     concat (map (\<lambda>a. case first_result a of Inl e \<Rightarrow> [] | Inr r \<Rightarrow> [observation r]) as)"

text \<open>The slice \<open>xs[start:]\<close>.\<close>

definition slice_from :: "'a list \<Rightarrow> int \<Rightarrow> 'a list" where
  "slice_from xs start =
     (let n = int (length xs);
          s = (if start < 0 then max (start + n) 0 else min start n)
      in drop (nat s) xs)"

text \<open>The inner loop of \<open>get_average_emotion\<close> over the items of one entry's scores.\<close>

definition add_scores :: "scores \<Rightarrow> scores \<Rightarrow> scores" where
  "add_scores all_scores items =
     fold (\<lambda>(emotion, score) acc. AList.update emotion (dict_get acc emotion 0 + score) acc)
       items all_scores"

text \<open>The outer loop, starting from the empty dict.\<close>

definition sum_scores :: "history_entry list \<Rightarrow> scores" where
  "sum_scores recent = fold (\<lambda>entry acc. add_scores acc (entry_scores entry)) recent []"

text \<open>
  \<open>max(items, key=lambda x: x[1])\<close> on a non-empty sequence: the first item of greatest
  key, the running maximum being replaced only by a strictly greater one.
\<close>

fun max_item :: "(string \<times> real) \<Rightarrow> (string \<times> real) list \<Rightarrow> (string \<times> real)" where
  "max_item m [] = m"
| "max_item m (x # xs) = max_item (if snd x > snd m then x else m) xs"

record average =
  avg_emotion :: string
  avg_scores :: scores
  avg_color :: rgb

definition get_average_emotion :: "emotion_detector \<Rightarrow> int \<Rightarrow> average option" where
  "get_average_emotion d window_size =
     (if emotion_history d = [] then None
      else
        let recent = slice_from (emotion_history d) (- window_size);
            all_scores = sum_scores recent;
            total = sum_list (map snd all_scores);
            all_scores = (if total > 0
                          then map (\<lambda>(emotion, v). (emotion, v / real (length recent))) all_scores
                          else all_scores);
            dominant = (case all_scores of
                          [] \<Rightarrow> ''neutral''
                        | x # xs \<Rightarrow> fst (max_item x xs));
            color = dict_get EMOTION_COLORS (lower dominant) (200, 200, 200)
        in Some \<lparr> avg_emotion = dominant, avg_scores = all_scores, avg_color = color \<rparr>)"

section \<open>Predicates used in the statements\<close>

text \<open>\<open>x\<close> lies between \<open>a\<close> and \<open>b\<close>, in either order.\<close>

definition between :: "int \<Rightarrow> int \<Rightarrow> int \<Rightarrow> bool" where
  "between a b x = (min a b \<le> x \<and> x \<le> max a b)"

text \<open>
  No channel of \<open>new\<close> has left the interval spanned by its value in \<open>old\<close> and in
  \<open>target\<close>, and none is farther from \<open>target\<close> than it was.
\<close>

definition no_overshoot :: "rgb \<Rightarrow> rgb \<Rightarrow> rgb \<Rightarrow> bool" where
  "no_overshoot old target new =
     (case (old, target, new) of
        ((r1, g1, b1), (r2, g2, b2), (r, g, b)) \<Rightarrow>
          between r1 r2 r \<and> between g1 g2 g \<and> between b1 b2 b \<and>
          \<bar>r - r2\<bar> \<le> \<bar>r1 - r2\<bar> \<and> \<bar>g - g2\<bar> \<le> \<bar>g1 - g2\<bar> \<and> \<bar>b - b2\<bar> \<le> \<bar>b1 - b2\<bar>)"

definition in_range :: "rgb \<Rightarrow> bool" where
  "in_range c = (case c of (r, g, b) \<Rightarrow>
     0 \<le> r \<and> r \<le> 255 \<and> 0 \<le> g \<and> g \<le> 255 \<and> 0 \<le> b \<and> b \<le> 255)"

text \<open>The interpolated colour that \<open>update\<close> computes before its closeness test.\<close>

definition interpolated :: "lighting_controller \<Rightarrow> real \<Rightarrow> rgb" where
  "interpolated s current_time =
     (case (current_color s, target_color s) of
        ((r1, g1, b1), (r2, g2, b2)) \<Rightarrow>
          let step = transition_speed s * (current_time - last_update s) * 10
          in (interpolate r1 r2 step, interpolate g1 g2 step, interpolate b1 b2 step))"

text \<open>Every channel of \<open>c\<close> is less than 5 away from the same channel of \<open>target\<close>.\<close>

definition close_enough :: "rgb \<Rightarrow> rgb \<Rightarrow> bool" where
  "close_enough c target =
     (case (c, target) of
        ((r, g, b), (r2, g2, b2)) \<Rightarrow> \<bar>r - r2\<bar> < 5 \<and> \<bar>g - g2\<bar> < 5 \<and> \<bar>b - b2\<bar> < 5)"

text \<open>The keys of the score dicts of a list of entries, and one key's score in an entry.\<close>

definition keys_of :: "history_entry list \<Rightarrow> string set" where
  "keys_of es = (\<Union>e \<in> set es. fst ` set (entry_scores e))"

definition score_in :: "history_entry \<Rightarrow> string \<Rightarrow> real" where
  "score_in e k = dict_get (entry_scores e) k 0"

text \<open>Well-formed score dicts: no key twice, no negative score.\<close>

definition wf_entry :: "history_entry \<Rightarrow> bool" where
  "wf_entry e = (distinct (map fst (entry_scores e)) \<and> (\<forall>(k, v) \<in> set (entry_scores e). 0 \<le> v))"

text \<open>
  The current colour scaled by the brightness, each product turned into an integer by
  \<open>rnd\<close>.
\<close>

definition scaled :: "(real \<Rightarrow> int) \<Rightarrow> lighting_controller \<Rightarrow> rgb" where
  "scaled rnd s =
     (case current_color s of
        (r, g, b) \<Rightarrow>
          (rnd (real_of_int r * brightness s),
           rnd (real_of_int g * brightness s),
           rnd (real_of_int b * brightness s)))"

text \<open>No product of a channel and the brightness is negative.\<close>

definition nonneg_products :: "lighting_controller \<Rightarrow> bool" where
  "nonneg_products s =
     (case current_color s of
        (r, g, b) \<Rightarrow>
          0 \<le> real_of_int r * brightness s \<and>
          0 \<le> real_of_int g * brightness s \<and>
          0 \<le> real_of_int b * brightness s)"

text \<open>
  The last \<open>n\<close> elements of a list (all of them when it has fewer).
\<close>

definition last_n :: "nat \<Rightarrow> 'a list \<Rightarrow> 'a list" where
  "last_n n xs = drop (length xs - n) xs"

text \<open>
  \<open>r\<close> is the average of the entries \<open>recent\<close>: its scores have exactly the keys that
  occur in some entry, each once; the score of a key is the sum of that key's scores over
  the entries, an entry without the key counting 0, divided by the number of entries; its
  label is a key of greatest averaged score, or \<open>'neutral'\<close> when there is no key; its
  colour is the colour of its label.
\<close>

definition is_average_over :: "history_entry list \<Rightarrow> average \<Rightarrow> bool" where
  "is_average_over recent r =
     (distinct (map fst (avg_scores r))
      \<and> fst ` set (avg_scores r) = keys_of recent
      \<and> (\<forall>k \<in> keys_of recent.
            map_of (avg_scores r) k
              = Some (sum_list (map (\<lambda>e. score_in e k) recent) / real (length recent)))
      \<and> (if keys_of recent = {} then avg_emotion r = ''neutral''
          else avg_emotion r \<in> keys_of recent
               \<and> (\<forall>k \<in> keys_of recent.
                     dict_get (avg_scores r) k 0 \<le> dict_get (avg_scores r) (avg_emotion r) 0))
      \<and> avg_color r = dict_get EMOTION_COLORS (lower (avg_emotion r)) (200, 200, 200))"

text \<open>
  The observations of the aggregation example: two detections with scores
  happy 80, sad 20 and happy 60, sad 40.
\<close>

definition two_observations :: "analysis list" where
  "two_observations =
     [ResultDict \<lparr> res_emotion = Some [(''happy'', 80), (''sad'', 20)],
                   res_dominant_emotion = Some ''happy'' \<rparr>,
      ResultDict \<lparr> res_emotion = Some [(''happy'', 60), (''sad'', 40)],
                   res_dominant_emotion = Some ''happy'' \<rparr>]"

section \<open>Proofs\<close>

subsection \<open>Properties of the interpolation\<close>

lemma py_int_of_int: "py_int (real_of_int n) = n"
  by (simp add: py_int_def)

lemma py_int_mono: "x \<le> y \<Longrightarrow> py_int x \<le> py_int y"
proof -
  assume xy: "x \<le> y"
  show ?thesis
  proof (cases "0 \<le> x")
    case True
    with xy show ?thesis by (simp add: py_int_def floor_mono)
  next
    case False
    note neg = this
    show ?thesis
    proof (cases "0 \<le> y")
      case True
      have "py_int x \<le> 0" using neg by (simp add: py_int_def ceiling_le_iff)
      moreover have "0 \<le> py_int y" using True by (simp add: py_int_def)
      ultimately show ?thesis by linarith
    next
      case False
      with neg xy show ?thesis by (simp add: py_int_def ceiling_mono)
    qed
  qed
qed

lemma interpolate_zero: "interpolate c1 c2 0 = c1"
  by (simp add: interpolate_def py_int_of_int)

lemma interpolate_between:
  assumes "0 \<le> step" "step \<le> 1"
  shows "between c1 c2 (interpolate c1 c2 step)"
proof (cases "c1 \<le> c2")
  case True
  have d: "0 \<le> real_of_int (c2 - c1)" using True by simp
  have lo: "real_of_int c1 \<le> real_of_int c1 + real_of_int (c2 - c1) * step"
    using d assms(1) by simp
  have "real_of_int (c2 - c1) * step \<le> real_of_int (c2 - c1) * 1"
    using d assms(2) by (rule mult_left_mono[rotated])
  then have hi: "real_of_int c1 + real_of_int (c2 - c1) * step \<le> real_of_int c2"
    by simp
  have "c1 \<le> interpolate c1 c2 step"
    using py_int_mono[OF lo] by (simp add: interpolate_def py_int_of_int)
  moreover have "interpolate c1 c2 step \<le> c2"
    using py_int_mono[OF hi] by (simp add: interpolate_def py_int_of_int)
  ultimately show ?thesis using True by (simp add: between_def)
next
  case False
  then have d: "0 \<le> real_of_int (c1 - c2)" by simp
  have e: "real_of_int c1 + real_of_int (c2 - c1) * step =
           real_of_int c1 - real_of_int (c1 - c2) * step"
    by (simp add: algebra_simps)
  have hi: "real_of_int c1 + real_of_int (c2 - c1) * step \<le> real_of_int c1"
    unfolding e using d assms(1) by simp
  have "real_of_int (c1 - c2) * step \<le> real_of_int (c1 - c2) * 1"
    using d assms(2) by (rule mult_left_mono[rotated])
  then have lo: "real_of_int c2 \<le> real_of_int c1 + real_of_int (c2 - c1) * step"
    unfolding e by simp
  have "interpolate c1 c2 step \<le> c1"
    using py_int_mono[OF hi] by (simp add: interpolate_def py_int_of_int)
  moreover have "c2 \<le> interpolate c1 c2 step"
    using py_int_mono[OF lo] by (simp add: interpolate_def py_int_of_int)
  ultimately show ?thesis using False by (simp add: between_def)
qed

lemma between_dist: "between a b x \<Longrightarrow> \<bar>x - b\<bar> \<le> \<bar>a - b\<bar>"
  by (auto simp: between_def)

lemma between_target: "between a b b"
  by (simp add: between_def)

lemma between_old: "between a b a"
  by (simp add: between_def)

lemma between_in_range:
  "between a b x \<Longrightarrow> 0 \<le> a \<Longrightarrow> a \<le> 255 \<Longrightarrow> 0 \<le> b \<Longrightarrow> b \<le> 255 \<Longrightarrow> 0 \<le> x \<and> x \<le> 255"
  by (auto simp: between_def)

lemma no_overshoot_same: "no_overshoot c t c"
  by (cases c; cases t) (simp add: no_overshoot_def between_old)

lemma no_overshoot_target: "no_overshoot c t t"
  by (cases c; cases t) (simp add: no_overshoot_def between_target)

lemma no_overshoot_interpolated:
  assumes "0 \<le> transition_speed s * (t - last_update s) * 10"
      and "transition_speed s * (t - last_update s) * 10 \<le> 1"
  shows "no_overshoot (current_color s) (target_color s) (interpolated s t)"
  using assms
  by (cases "current_color s"; cases "target_color s")
     (simp add: no_overshoot_def interpolated_def Let_def interpolate_between between_dist)

lemma no_overshoot_in_range:
  "no_overshoot c t n \<Longrightarrow> in_range c \<Longrightarrow> in_range t \<Longrightarrow> in_range n"
  by (cases c; cases t; cases n)
     (auto simp: no_overshoot_def in_range_def dest: between_in_range)

subsection \<open>What \<open>update\<close> does to the state\<close>

lemma update_last_update: "last_update (update s t) = t"
  by (simp add: update_def Let_def split: prod.splits)

lemma update_target: "target_color (update s t) = target_color s"
  by (simp add: update_def Let_def split: prod.splits)

lemma update_current:
  "current_color (update s t) =
     (if current_color s = target_color s then current_color s
      else if close_enough (interpolated s t) (target_color s) then target_color s
      else interpolated s t)"
  by (cases "current_color s"; cases "target_color s")
     (simp add: update_def interpolated_def close_enough_def Let_def)

lemma interpolated_no_time: "interpolated s (last_update s) = current_color s"
  by (cases "current_color s"; cases "target_color s")
     (simp add: interpolated_def interpolate_zero)

lemma no_overshoot_update:
  assumes "0 \<le> transition_speed s * (t - last_update s) * 10"
      and "transition_speed s * (t - last_update s) * 10 \<le> 1"
  shows "no_overshoot (current_color s) (target_color s) (current_color (update s t))"
  using no_overshoot_interpolated[OF assms]
  by (simp add: update_current no_overshoot_same no_overshoot_target)

lemmas lighting_eval =
  update_def init_def set_emotion_color_def interpolate_def py_int_def Let_def
  interpolated_def close_enough_def

section \<open>The claims about the lighting controller\<close>

text \<open>
  C1 (as amended). When the step \<open>transition_speed * dt * 10\<close> of a tick lies in
  \<open>[0, 1]\<close>, every channel of the current colour after the tick lies between its value
  before the tick and the target's, and its distance to the target has not grown.
  \<open>update\<close> neither bounds the step nor clamps the result, so a step above 1 carries a
  channel past the target.
\<close>

theorem C1_no_overshoot_when_step_at_most_one:
  assumes "0 \<le> transition_speed s * (t - last_update s) * 10"
      and "transition_speed s * (t - last_update s) * 10 \<le> 1"
  shows "no_overshoot (current_color s) (target_color s) (current_color (update s t))"
  using assms by (rule no_overshoot_update)

text \<open>
  Witness: half a second after the target was set to (255, 200, 0) the step is 1/2 and
  the colour is (227, 200, 100).
\<close>

theorem C1_witness:
  "0 \<le> transition_speed (set_emotion_color (init 0) (255, 200, 0) True)
         * (1 / 2 - last_update (set_emotion_color (init 0) (255, 200, 0) True)) * 10
   \<and> transition_speed (set_emotion_color (init 0) (255, 200, 0) True)
         * (1 / 2 - last_update (set_emotion_color (init 0) (255, 200, 0) True)) * 10 \<le> 1
   \<and> current_color (update (set_emotion_color (init 0) (255, 200, 0) True) (1 / 2))
       = (227, 200, 100)
   \<and> no_overshoot (200, 200, 200) (255, 200, 0)
       (current_color (update (set_emotion_color (init 0) (255, 200, 0) True) (1 / 2)))"
proof -
  have a: "0 \<le> transition_speed (set_emotion_color (init 0) (255, 200, 0) True)
         * (1 / 2 - last_update (set_emotion_color (init 0) (255, 200, 0) True)) * 10"
    by (simp add: init_def set_emotion_color_def)
  have b: "transition_speed (set_emotion_color (init 0) (255, 200, 0) True)
         * (1 / 2 - last_update (set_emotion_color (init 0) (255, 200, 0) True)) * 10 \<le> 1"
    by (simp add: init_def set_emotion_color_def)
  have c: "current_color (update (set_emotion_color (init 0) (255, 200, 0) True) (1 / 2))
       = (227, 200, 100)"
    by (simp add: lighting_eval)
  have d: "current_color (set_emotion_color (init 0) (255, 200, 0) True) = (200, 200, 200)"
          "target_color (set_emotion_color (init 0) (255, 200, 0) True) = (255, 200, 0)"
    by (simp_all add: init_def set_emotion_color_def)
  from C1_no_overshoot_when_step_at_most_one[OF a b] a b c d show ?thesis
    by simp
qed

text \<open>
  Counterexample to C1 as stated: two seconds (a non-negative elapsed time) after the
  target was set to (255, 200, 0) from (200, 200, 200), the step is 2 and the colour is
  (310, 200, -200): red has passed 255 and blue has passed 0.
\<close>

theorem C1_counterexample:
  "0 \<le> 2 - last_update (set_emotion_color (init 0) (255, 200, 0) True)
   \<and> current_color (update (set_emotion_color (init 0) (255, 200, 0) True) 2)
       = (310, 200, - 200)
   \<and> \<not> no_overshoot
          (current_color (set_emotion_color (init 0) (255, 200, 0) True))
          (target_color (set_emotion_color (init 0) (255, 200, 0) True))
          (current_color (update (set_emotion_color (init 0) (255, 200, 0) True) 2))"
  by (simp add: lighting_eval no_overshoot_def between_def)

text \<open>
  C2 (as amended). \<open>update\<close> has no clamp: when a tick does not snap, the current colour
  becomes the truncated interpolated colour as it is. Its channels are in \<open>[0, 255]\<close>
  after a tick when those of the colour before the tick and of the target are and the
  step \<open>transition_speed * dt * 10\<close> lies in \<open>[0, 1]\<close>.
\<close>

theorem C2_in_range_when_step_at_most_one:
  "(current_color s \<noteq> target_color s \<and> \<not> close_enough (interpolated s t) (target_color s)
      \<longrightarrow> current_color (update s t) = interpolated s t)
   \<and> (in_range (current_color s) \<and> in_range (target_color s)
        \<and> 0 \<le> transition_speed s * (t - last_update s) * 10
        \<and> transition_speed s * (t - last_update s) * 10 \<le> 1
      \<longrightarrow> in_range (current_color (update s t)))"
proof (intro conjI impI)
  assume "current_color s \<noteq> target_color s \<and> \<not> close_enough (interpolated s t) (target_color s)"
  then show "current_color (update s t) = interpolated s t"
    by (simp add: update_current)
next
  assume a: "in_range (current_color s) \<and> in_range (target_color s)
        \<and> 0 \<le> transition_speed s * (t - last_update s) * 10
        \<and> transition_speed s * (t - last_update s) * 10 \<le> 1"
  then have "no_overshoot (current_color s) (target_color s) (current_color (update s t))"
    by (simp add: no_overshoot_update)
  with a show "in_range (current_color (update s t))"
    by (blast intro: no_overshoot_in_range)
qed

text \<open>
  Witness: 0.3 seconds after the target was set to (100, 150, 255) the tick does not snap
  and the colour is (170, 185, 216).
\<close>

theorem C2_witness:
  "current_color (update (set_emotion_color (init 0) (100, 150, 255) True) (3 / 10))
     = (170, 185, 216)
   \<and> interpolated (set_emotion_color (init 0) (100, 150, 255) True) (3 / 10)
     = (170, 185, 216)
   \<and> in_range (current_color (update (set_emotion_color (init 0) (100, 150, 255) True) (3 / 10)))"
proof -
  have a: "current_color (set_emotion_color (init 0) (100, 150, 255) True)
             \<noteq> target_color (set_emotion_color (init 0) (100, 150, 255) True)
           \<and> \<not> close_enough (interpolated (set_emotion_color (init 0) (100, 150, 255) True) (3 / 10))
                 (target_color (set_emotion_color (init 0) (100, 150, 255) True))"
    by (simp add: lighting_eval)
  have b: "in_range (current_color (set_emotion_color (init 0) (100, 150, 255) True))
           \<and> in_range (target_color (set_emotion_color (init 0) (100, 150, 255) True))
           \<and> 0 \<le> transition_speed (set_emotion_color (init 0) (100, 150, 255) True)
                  * (3 / 10 - last_update (set_emotion_color (init 0) (100, 150, 255) True)) * 10
           \<and> transition_speed (set_emotion_color (init 0) (100, 150, 255) True)
                  * (3 / 10 - last_update (set_emotion_color (init 0) (100, 150, 255) True)) * 10 \<le> 1"
    by (simp add: init_def set_emotion_color_def in_range_def)
  have c: "interpolated (set_emotion_color (init 0) (100, 150, 255) True) (3 / 10)
     = (170, 185, 216)"
    by (simp add: lighting_eval)
  note inst = C2_in_range_when_step_at_most_one
         [of "set_emotion_color (init 0) (100, 150, 255) True" "3 / 10"]
  have d: "current_color (update (set_emotion_color (init 0) (100, 150, 255) True) (3 / 10))
             = interpolated (set_emotion_color (init 0) (100, 150, 255) True) (3 / 10)"
    using inst a by blast
  have e: "in_range (current_color (update (set_emotion_color (init 0) (100, 150, 255) True) (3 / 10)))"
    using inst b by blast
  from c d e show ?thesis by simp
qed

text \<open>
  Counterexample to C2 as stated: a tick 60 seconds after the target was set to
  (100, 150, 255) from (200, 200, 200) does not snap and leaves (-5800, -2800, 3500).
\<close>

theorem C2_counterexample:
  "in_range (current_color (set_emotion_color (init 0) (100, 150, 255) True))
   \<and> in_range (target_color (set_emotion_color (init 0) (100, 150, 255) True))
   \<and> current_color (set_emotion_color (init 0) (100, 150, 255) True)
       \<noteq> target_color (set_emotion_color (init 0) (100, 150, 255) True)
   \<and> \<not> close_enough (interpolated (set_emotion_color (init 0) (100, 150, 255) True) 60)
         (target_color (set_emotion_color (init 0) (100, 150, 255) True))
   \<and> current_color (update (set_emotion_color (init 0) (100, 150, 255) True) 60)
       = (- 5800, - 2800, 3500)
   \<and> \<not> in_range (current_color (update (set_emotion_color (init 0) (100, 150, 255) True) 60))"
  by (simp add: lighting_eval in_range_def)

text \<open>
  C5. When the current colour differs from the target and every channel of the
  interpolated colour is less than 5 away from the target's, the tick sets the current
  colour to the target. In particular, with the target set to (255, 200, 0) from
  (200, 200, 200) at speed 0.1, a tick one second later has step 1 and leaves
  (255, 200, 0).
\<close>

theorem C5_snap_when_close_enough:
  "(current_color s \<noteq> target_color s \<and> close_enough (interpolated s t) (target_color s)
      \<longrightarrow> current_color (update s t) = target_color s)
   \<and> transition_speed (set_emotion_color (init 0) (255, 200, 0) True)
        * (1 - last_update (set_emotion_color (init 0) (255, 200, 0) True)) * 10 = 1
   \<and> current_color (set_emotion_color (init 0) (255, 200, 0) True) = (200, 200, 200)
   \<and> current_color (update (set_emotion_color (init 0) (255, 200, 0) True) 1) = (255, 200, 0)"
  by (simp add: update_current) (simp add: lighting_eval)

text \<open>
  Witness: the scenario, where the interpolated colour is the target itself.
\<close>

theorem C5_witness:
  "current_color (set_emotion_color (init 0) (255, 200, 0) True)
     \<noteq> target_color (set_emotion_color (init 0) (255, 200, 0) True)
   \<and> interpolated (set_emotion_color (init 0) (255, 200, 0) True) 1 = (255, 200, 0)
   \<and> close_enough (interpolated (set_emotion_color (init 0) (255, 200, 0) True) 1)
        (target_color (set_emotion_color (init 0) (255, 200, 0) True))
   \<and> current_color (update (set_emotion_color (init 0) (255, 200, 0) True) 1)
       = target_color (set_emotion_color (init 0) (255, 200, 0) True)"
proof -
  have a: "current_color (set_emotion_color (init 0) (255, 200, 0) True)
     \<noteq> target_color (set_emotion_color (init 0) (255, 200, 0) True)"
    by (simp add: init_def set_emotion_color_def)
  have b: "interpolated (set_emotion_color (init 0) (255, 200, 0) True) 1 = (255, 200, 0)"
    by (simp add: lighting_eval)
  have c: "close_enough (interpolated (set_emotion_color (init 0) (255, 200, 0) True) 1)
        (target_color (set_emotion_color (init 0) (255, 200, 0) True))"
    by (simp add: lighting_eval)
  from C5_snap_when_close_enough
         [of "set_emotion_color (init 0) (255, 200, 0) True" 1, THEN conjunct1] a b c
  show ?thesis by simp
qed

text \<open>
  C7 (as amended). A tick with no elapsed time sets \<open>last_update\<close> to the supplied clock
  reading. It leaves the current colour as it is unless every channel is already less
  than 5 away from the target's: then the closeness test of \<open>update\<close>, which runs
  whenever current and target differ, sets the current colour to the target.
\<close>

theorem C7_update_without_elapsed_time:
  "t = last_update s \<longrightarrow>
     last_update (update s t) = t
     \<and> current_color (update s t) =
         (if close_enough (current_color s) (target_color s) then target_color s
          else current_color s)"
proof
  assume t: "t = last_update s"
  have same: "current_color s = target_color s \<Longrightarrow> close_enough (current_color s) (target_color s)"
    by (cases "target_color s") (simp add: close_enough_def)
  show "last_update (update s t) = t
     \<and> current_color (update s t) =
         (if close_enough (current_color s) (target_color s) then target_color s
          else current_color s)"
    using same by (auto simp add: t update_last_update update_current interpolated_no_time)
qed

text \<open>
  Witness: right after the target was set to (255, 200, 0), far from (200, 200, 200), a
  tick at the same clock reading keeps the colour.
\<close>

theorem C7_witness:
  "last_update (update (set_emotion_color (init 3) (255, 200, 0) True) 3) = 3
   \<and> \<not> close_enough (current_color (set_emotion_color (init 3) (255, 200, 0) True))
         (target_color (set_emotion_color (init 3) (255, 200, 0) True))
   \<and> current_color (update (set_emotion_color (init 3) (255, 200, 0) True) 3)
       = current_color (set_emotion_color (init 3) (255, 200, 0) True)"
proof -
  have a: "3 = last_update (set_emotion_color (init 3) (255, 200, 0) True)"
    by (simp add: init_def set_emotion_color_def)
  have b: "\<not> close_enough (current_color (set_emotion_color (init 3) (255, 200, 0) True))
         (target_color (set_emotion_color (init 3) (255, 200, 0) True))"
    by (simp add: init_def set_emotion_color_def close_enough_def)
  from C7_update_without_elapsed_time
         [of 3 "set_emotion_color (init 3) (255, 200, 0) True"] a b
  show ?thesis by simp
qed

text \<open>
  Counterexample to C7 as stated: right after the target was set to (202, 200, 200), a
  tick with no elapsed time changes the current colour from (200, 200, 200) to
  (202, 200, 200).
\<close>

theorem C7_counterexample:
  "3 - last_update (set_emotion_color (init 3) (202, 200, 200) True) = 0
   \<and> current_color (set_emotion_color (init 3) (202, 200, 200) True) = (200, 200, 200)
   \<and> current_color (update (set_emotion_color (init 3) (202, 200, 200) True) 3)
       = (202, 200, 200)
   \<and> current_color (update (set_emotion_color (init 3) (202, 200, 200) True) 3)
       \<noteq> current_color (set_emotion_color (init 3) (202, 200, 200) True)"
  by (simp add: lighting_eval)

lemmas switch_eval = turn_on_def turn_off_def log_event_def set_brightness_def

text \<open>
  C3 (as amended). When the light is off the output is (0, 0, 0), whatever the colours.
  When it is on, each channel of the output is the product of that channel of the current
  colour and the brightness, truncated towards zero: its floor when the product is not
  negative, its ceiling when it is. So the output is the channel-wise floor whenever no
  product is negative.
\<close>

theorem C3_output_off_and_scaled:
  "(\<not> is_on s \<longrightarrow> get_current_color s = (0, 0, 0))
   \<and> (is_on s \<longrightarrow> get_current_color s = scaled (\<lambda>x. if 0 \<le> x then \<lfloor>x\<rfloor> else \<lceil>x\<rceil>) s)
   \<and> (is_on s \<and> nonneg_products s \<longrightarrow> get_current_color s = scaled floor s)"
  by (cases "current_color s")
     (simp add: get_current_color_def scaled_def nonneg_products_def py_int_def)

text \<open>
  Witness: the initial controller is off and gives (0, 0, 0); switched on, with
  brightness 0.7 and colour (200, 200, 200), it gives (140, 140, 140).
\<close>

theorem C3_witness:
  "\<not> is_on (init 0)
   \<and> get_current_color (init 0) = (0, 0, 0)
   \<and> is_on (turn_on (init 0) ''2024-01-01 12:00:00'')
   \<and> nonneg_products (turn_on (init 0) ''2024-01-01 12:00:00'')
   \<and> get_current_color (turn_on (init 0) ''2024-01-01 12:00:00'') = (140, 140, 140)"
proof -
  have a: "\<not> is_on (init 0)" by (simp add: init_def)
  have b: "is_on (turn_on (init 0) ''2024-01-01 12:00:00'')"
    by (simp add: switch_eval)
  have c: "nonneg_products (turn_on (init 0) ''2024-01-01 12:00:00'')"
    by (simp add: switch_eval init_def nonneg_products_def)
  have d: "scaled floor (turn_on (init 0) ''2024-01-01 12:00:00'') = (140, 140, 140)"
    by (simp add: switch_eval init_def scaled_def)
  note off = C3_output_off_and_scaled[of "init 0"]
  note on = C3_output_off_and_scaled[of "turn_on (init 0) ''2024-01-01 12:00:00''"]
  have e: "get_current_color (init 0) = (0, 0, 0)" using off a by blast
  have "get_current_color (turn_on (init 0) ''2024-01-01 12:00:00'')
          = scaled floor (turn_on (init 0) ''2024-01-01 12:00:00'')"
    using on b c by blast
  with d have f: "get_current_color (turn_on (init 0) ''2024-01-01 12:00:00'') = (140, 140, 140)"
    by simp
  from a b c e f show ?thesis by simp
qed

text \<open>
  Counterexample to C3 as stated: 1.5 seconds after the target was set to (255, 50, 50)
  the current colour is (282, -25, -25); at brightness 0.5 and switched on, the output is
  (141, -12, -12), and the channel-wise floor is (141, -13, -13).
\<close>

theorem C3_counterexample:
  "current_color
     (turn_on (set_brightness (update (set_emotion_color (init 0) (255, 50, 50) True) (3 / 2))
        (1 / 2)) ''2024-01-01 12:00:00'') = (282, - 25, - 25)
   \<and> brightness
     (turn_on (set_brightness (update (set_emotion_color (init 0) (255, 50, 50) True) (3 / 2))
        (1 / 2)) ''2024-01-01 12:00:00'') = 1 / 2
   \<and> is_on
     (turn_on (set_brightness (update (set_emotion_color (init 0) (255, 50, 50) True) (3 / 2))
        (1 / 2)) ''2024-01-01 12:00:00'')
   \<and> get_current_color
     (turn_on (set_brightness (update (set_emotion_color (init 0) (255, 50, 50) True) (3 / 2))
        (1 / 2)) ''2024-01-01 12:00:00'') = (141, - 12, - 12)
   \<and> scaled floor
     (turn_on (set_brightness (update (set_emotion_color (init 0) (255, 50, 50) True) (3 / 2))
        (1 / 2)) ''2024-01-01 12:00:00'') = (141, - 13, - 13)"
  by (simp add: switch_eval lighting_eval get_current_color_def scaled_def)

text \<open>
  C8. Two calls of \<open>update\<close> at the same clock reading: the second leaves the current
  colour as the first left it.
\<close>

theorem C8_second_update_at_same_time_keeps_color:
  "current_color (update (update s t) t) = current_color (update s t)"
proof -
  have "interpolated (update s t) t = current_color (update s t)"
    using interpolated_no_time[of "update s t"] by (simp add: update_last_update)
  then show ?thesis
    by (subst update_current) (simp add: update_target update_current)
qed

section \<open>The claims about the emotion detector\<close>

subsection \<open>Detection and the bounded history\<close>

lemma detect_emotion_fails:
  "first_result a = Inl e \<Longrightarrow>
     detect_emotion d a =
       (\<lparr> det_emotion = ''none'', det_dominant_emotion = ''none'', det_scores = [],
          det_color = (128, 128, 128), det_face_detected = False, det_error = Some e \<rparr>, d)"
  by (simp add: detect_emotion_def)

lemma detect_emotion_history:
  "first_result a = Inr r \<Longrightarrow>
     emotion_history (snd (detect_emotion d a)) =
       (if length (emotion_history d) \<ge> 30
        then tl (emotion_history d @ [observation r])
        else emotion_history d @ [observation r])"
  by (simp add: detect_emotion_def Let_def)

lemma emotion_color_not_gray:
  "dict_get EMOTION_COLORS l (200, 200, 200) \<noteq> (128, 128, 128)"
  by (simp add: dict_get_def EMOTION_COLORS_def)

lemma observation_color_not_gray: "entry_color (observation r) \<noteq> (128, 128, 128)"
  by (simp add: observation_def Let_def emotion_color_not_gray)

lemma detect_emotion_length:
  "length (emotion_history d) \<le> 30 \<Longrightarrow> length (emotion_history (snd (detect_emotion d a))) \<le> 30"
  by (cases "first_result a") (auto simp: detect_emotion_fails detect_emotion_history)

lemma detect_all_snoc:
  "detect_all d (as @ [a]) = snd (detect_emotion (detect_all d as) a)"
  by (simp add: detect_all_def)

lemma recorded_snoc:
  "recorded (as @ [a]) =
     recorded as @ (case first_result a of Inl e \<Rightarrow> [] | Inr r \<Rightarrow> [observation r])"
  by (simp add: recorded_def)

lemma detect_all_length:
  "length (emotion_history d) \<le> 30 \<Longrightarrow> length (emotion_history (detect_all d as)) \<le> 30"
  by (induction as rule: rev_induct) (simp_all add: detect_all_def detect_emotion_length)

lemma last_thirty_snoc:
  assumes h: "h = drop (length es - 30) es"
  shows "(if length h \<ge> 30 then tl (h @ [e]) else h @ [e])
           = drop (length (es @ [e]) - 30) (es @ [e])"
proof (cases "length es < 30")
  case True
  then show ?thesis by (simp add: h)
next
  case False
  then have n: "30 \<le> length es" by simp
  then have ne: "h \<noteq> []" and len: "length h = 30" by (simp_all add: h)
  have k: "Suc (length es - 30) = length (es @ [e]) - 30" using n by simp
  have "tl (h @ [e]) = tl h @ [e]"
    using ne by simp
  also have "\<dots> = drop (Suc (length es - 30)) es @ [e]"
    by (simp only: h tl_drop drop_Suc)
  also have "\<dots> = drop (Suc (length es - 30)) (es @ [e])"
    using n by simp
  also have "\<dots> = drop (length (es @ [e]) - 30) (es @ [e])"
    by (simp only: k)
  finally show ?thesis by (simp only: len) simp
qed

lemma detect_all_history:
  "emotion_history (detect_all new_detector as) = drop (length (recorded as) - 30) (recorded as)"
proof (induction as rule: rev_induct)
  case Nil
  show ?case by (simp add: detect_all_def new_detector_def recorded_def)
next
  case (snoc a as)
  show ?case
  proof (cases "first_result a")
    case (Inl e)
    then show ?thesis
      using snoc by (simp add: detect_all_snoc recorded_snoc detect_emotion_fails)
  next
    case (Inr r)
    have "emotion_history (detect_all new_detector (as @ [a])) =
            (if length (emotion_history (detect_all new_detector as)) \<ge> 30
             then tl (emotion_history (detect_all new_detector as) @ [observation r])
             else emotion_history (detect_all new_detector as) @ [observation r])"
      by (simp only: detect_all_snoc detect_emotion_history[OF Inr])
    also have "\<dots> = drop (length (recorded as @ [observation r]) - 30)
                       (recorded as @ [observation r])"
      by (rule last_thirty_snoc[OF snoc.IH])
    also have "recorded as @ [observation r] = recorded (as @ [a])"
      by (simp add: recorded_snoc Inr)
    finally show ?thesis .
  qed
qed

lemma recorded_ResultDict: "recorded (map ResultDict rs) = map observation rs"
  by (induction rs) (simp_all add: recorded_def)

text \<open>
  C6. A run of detections started with at most 30 entries in the history ends with at
  most 30. Started from the empty history it leaves the last 30 of the entries recorded,
  in the order in which they were recorded: the oldest are the ones removed. After 35
  recorded entries the history has length 30 and is the recorded sequence without its
  first 5 entries.
\<close>

theorem C6_history_is_last_thirty:
  "(length (emotion_history d) \<le> 30 \<longrightarrow> length (emotion_history (detect_all d as)) \<le> 30)
   \<and> emotion_history (detect_all new_detector as)
       = drop (length (recorded as) - 30) (recorded as)
   \<and> (length (recorded as) = 35 \<longrightarrow>
        length (emotion_history (detect_all new_detector as)) = 30
        \<and> emotion_history (detect_all new_detector as) = drop 5 (recorded as))"
  by (simp add: detect_all_length detect_all_history)

text \<open>
  Witness: 35 detections of ``happy'', the n-th with score n; the history holds numbers
  5 to 34.
\<close>

theorem C6_witness:
  "length (emotion_history new_detector) \<le> 30
   \<and> length (emotion_history (detect_all new_detector
        (map (\<lambda>n. ResultDict \<lparr> res_emotion = Some [(''happy'', real n)],
                                 res_dominant_emotion = Some ''happy'' \<rparr>) [0..<35]))) \<le> 30
   \<and> length (recorded (map (\<lambda>n. ResultDict \<lparr> res_emotion = Some [(''happy'', real n)],
                                 res_dominant_emotion = Some ''happy'' \<rparr>) [0..<35])) = 35
   \<and> length (emotion_history (detect_all new_detector
        (map (\<lambda>n. ResultDict \<lparr> res_emotion = Some [(''happy'', real n)],
                                 res_dominant_emotion = Some ''happy'' \<rparr>) [0..<35]))) = 30
   \<and> emotion_history (detect_all new_detector
        (map (\<lambda>n. ResultDict \<lparr> res_emotion = Some [(''happy'', real n)],
                                 res_dominant_emotion = Some ''happy'' \<rparr>) [0..<35]))
      = map (\<lambda>n. \<lparr> entry_emotion = ''happy'', entry_scores = [(''happy'', real n)],
                    entry_color = (255, 200, 0) \<rparr>) [5..<35]"
proof -
  let ?as = "map (\<lambda>n. ResultDict \<lparr> res_emotion = Some [(''happy'', real n)],
                                 res_dominant_emotion = Some ''happy'' \<rparr>) [0..<35]"
  have obs: "\<And>n. observation \<lparr> res_emotion = Some [(''happy'', real n)],
                                 res_dominant_emotion = Some ''happy'' \<rparr>
      = \<lparr> entry_emotion = ''happy'', entry_scores = [(''happy'', real n)],
                    entry_color = (255, 200, 0) \<rparr>"
    by (simp add: observation_def dict_get_def EMOTION_COLORS_def lower_def lower_char_def)
  have r: "recorded ?as = map (\<lambda>n. \<lparr> entry_emotion = ''happy'', entry_scores = [(''happy'', real n)],
                    entry_color = (255, 200, 0) \<rparr>) [0..<35]"
    using recorded_ResultDict[of "map (\<lambda>n. \<lparr> res_emotion = Some [(''happy'', real n)],
                                 res_dominant_emotion = Some ''happy'' \<rparr>) [0..<35]"]
    by (simp add: obs comp_def)
  have len: "length (recorded ?as) = 35" by (simp add: r)
  have d: "drop 5 (recorded ?as) = map (\<lambda>n. \<lparr> entry_emotion = ''happy'', entry_scores = [(''happy'', real n)],
                    entry_color = (255, 200, 0) \<rparr>) [5..<35]"
    by (simp add: r drop_map)
  have e: "length (emotion_history new_detector) \<le> 30" by (simp add: new_detector_def)
  note inst = C6_history_is_last_thirty[of new_detector ?as]
  from inst e have bound: "length (emotion_history (detect_all new_detector ?as)) \<le> 30"
    by blast
  from inst len have "length (emotion_history (detect_all new_detector ?as)) = 30"
    and "emotion_history (detect_all new_detector ?as) = drop 5 (recorded ?as)"
    by blast+
  with e bound len d show ?thesis by simp
qed

text \<open>
  C9. \<open>detect_emotion\<close> returns a result on every outcome of the classification. When
  the classification raises (or returns an empty list, so that \<open>result[0]\<close> raises), the
  result has \<open>face_detected = False\<close>, the label \<open>'none'\<close>, no scores and the colour
  (128, 128, 128), and \<open>last_emotion\<close> and the history are as they were. That colour
  differs from the neutral fallback, and from the colour of every successful detection.
\<close>

theorem C9_failure_result_and_state:
  "(first_result a = Inl e \<longrightarrow>
      fst (detect_emotion d a) =
        \<lparr> det_emotion = ''none'', det_dominant_emotion = ''none'', det_scores = [],
          det_color = (128, 128, 128), det_face_detected = False, det_error = Some e \<rparr>
      \<and> last_emotion (snd (detect_emotion d a)) = last_emotion d
      \<and> emotion_history (snd (detect_emotion d a)) = emotion_history d)
   \<and> first_result (Raised e) = Inl e
   \<and> (first_result a = Inr r \<longrightarrow>
        det_face_detected (fst (detect_emotion d a))
        \<and> det_color (fst (detect_emotion d a)) \<noteq> (128, 128, 128))
   \<and> dict_get EMOTION_COLORS (lower ''neutral'') (200, 200, 200) \<noteq> (128, 128, 128)"
  by (simp add: detect_emotion_fails emotion_color_not_gray)
     (simp add: detect_emotion_def Let_def observation_color_not_gray)

text \<open>
  Witness: after one successful detection of ``sad'', a classification that raises gives
  the failure result and leaves the detector as it was; the successful detection's colour
  is not the failure colour.
\<close>

theorem C9_witness:
  "first_result (Raised ''Face could not be detected'') = Inl ''Face could not be detected''
   \<and> fst (detect_emotion
          (snd (detect_emotion new_detector
                  (ResultDict \<lparr> res_emotion = Some [(''sad'', 90), (''happy'', 10)],
                                res_dominant_emotion = Some ''sad'' \<rparr>)))
          (Raised ''Face could not be detected''))
       = \<lparr> det_emotion = ''none'', det_dominant_emotion = ''none'', det_scores = [],
           det_color = (128, 128, 128), det_face_detected = False,
           det_error = Some ''Face could not be detected'' \<rparr>
   \<and> snd (detect_emotion
          (snd (detect_emotion new_detector
                  (ResultDict \<lparr> res_emotion = Some [(''sad'', 90), (''happy'', 10)],
                                res_dominant_emotion = Some ''sad'' \<rparr>)))
          (Raised ''Face could not be detected''))
       = \<lparr> last_emotion = Some ''sad'',
           emotion_history =
             [\<lparr> entry_emotion = ''sad'', entry_scores = [(''sad'', 90), (''happy'', 10)],
                entry_color = (100, 150, 255) \<rparr>] \<rparr>
   \<and> det_color (fst (detect_emotion new_detector
                  (ResultDict \<lparr> res_emotion = Some [(''sad'', 90), (''happy'', 10)],
                                res_dominant_emotion = Some ''sad'' \<rparr>)))
       \<noteq> (128, 128, 128)"
proof -
  let ?r = "\<lparr> res_emotion = Some [(''sad'', 90), (''happy'', 10)],
              res_dominant_emotion = Some ''sad'' \<rparr>"
  let ?d = "snd (detect_emotion new_detector (ResultDict ?r))"
  let ?e = "''Face could not be detected''"
  have a: "first_result (Raised ?e) = Inl ?e" by simp
  have b: "first_result (ResultDict ?r) = Inr ?r" by simp
  have d: "?d = \<lparr> last_emotion = Some ''sad'',
           emotion_history =
             [\<lparr> entry_emotion = ''sad'', entry_scores = [(''sad'', 90), (''happy'', 10)],
                entry_color = (100, 150, 255) \<rparr>] \<rparr>"
    by (simp add: detect_emotion_def new_detector_def observation_def dict_get_def
          EMOTION_COLORS_def lower_def lower_char_def)
  note fails = C9_failure_result_and_state[of "Raised ?e" ?e ?d, THEN conjunct1]
  note succeeds =
    C9_failure_result_and_state[of "ResultDict ?r" ?e new_detector ?r,
      THEN conjunct2, THEN conjunct2, THEN conjunct1]
  have f: "fst (detect_emotion ?d (Raised ?e))
       = \<lparr> det_emotion = ''none'', det_dominant_emotion = ''none'', det_scores = [],
           det_color = (128, 128, 128), det_face_detected = False, det_error = Some ?e \<rparr>"
    and l: "last_emotion (snd (detect_emotion ?d (Raised ?e))) = last_emotion ?d"
    and h: "emotion_history (snd (detect_emotion ?d (Raised ?e))) = emotion_history ?d"
    using fails a by blast+
  from l h have same: "snd (detect_emotion ?d (Raised ?e)) = ?d"
    by (rule emotion_detector.equality) simp
  have g: "det_color (fst (detect_emotion new_detector (ResultDict ?r))) \<noteq> (128, 128, 128)"
    using succeeds b by blast
  show ?thesis
    using a f g same unfolding d by simp
qed

subsection \<open>Averaging over the recent history\<close>

lemma dict_get_member:
  "distinct (map fst al) \<Longrightarrow> (k, v) \<in> set al \<Longrightarrow> dict_get al k d = v"
  by (simp add: dict_get_def)

lemma dict_get_absent: "k \<notin> fst ` set al \<Longrightarrow> dict_get al k d = d"
proof -
  assume "k \<notin> fst ` set al"
  then have "map_of al k = None" by (simp add: map_of_eq_None_iff)
  then show ?thesis by (simp add: dict_get_def)
qed

lemma dict_get_update:
  "dict_get (AList.update k v al) k' d = (if k' = k then v else dict_get al k' d)"
  by (simp add: dict_get_def update_conv')

lemma add_scores_Cons:
  "add_scores acc ((k, v) # items)
     = add_scores (AList.update k (dict_get acc k 0 + v) acc) items"
  by (simp add: add_scores_def)

lemma add_scores_Nil: "add_scores acc [] = acc"
  by (simp add: add_scores_def)

lemma add_scores_keys:
  "fst ` set (add_scores acc items) = fst ` set acc \<union> fst ` set items"
proof (induction items arbitrary: acc)
  case Nil
  show ?case by (simp add: add_scores_Nil)
next
  case (Cons kv items)
  obtain k v where kv: "kv = (k, v)" by (cases kv)
  show ?case
    unfolding kv add_scores_Cons Cons.IH by (auto simp: dom_update)
qed

lemma add_scores_distinct:
  "distinct (map fst acc) \<Longrightarrow> distinct (map fst (add_scores acc items))"
proof (induction items arbitrary: acc)
  case Nil
  then show ?case by (simp add: add_scores_Nil)
next
  case (Cons kv items)
  obtain k v where kv: "kv = (k, v)" by (cases kv)
  show ?case
    unfolding kv add_scores_Cons
    by (rule Cons.IH) (simp add: distinct_update Cons.prems)
qed

lemma add_scores_get:
  "distinct (map fst items) \<Longrightarrow>
     dict_get (add_scores acc items) k 0 = dict_get acc k 0 + dict_get items k 0"
proof (induction items arbitrary: acc)
  case Nil
  show ?case by (simp add: add_scores_Nil dict_get_def)
next
  case (Cons kv items)
  obtain k' v where kv: "kv = (k', v)" by (cases kv)
  from Cons.prems have d: "distinct (map fst items)" and notin: "k' \<notin> fst ` set items"
    by (simp_all add: kv)
  have "dict_get (add_scores acc (kv # items)) k 0
          = dict_get (AList.update k' (dict_get acc k' 0 + v) acc) k 0 + dict_get items k 0"
    unfolding kv add_scores_Cons by (rule Cons.IH[OF d])
  also have "\<dots> = dict_get acc k 0 + dict_get (kv # items) k 0"
  proof (cases "k = k'")
    case True
    then have "dict_get items k 0 = (0::real)" using notin by (simp add: dict_get_absent)
    then show ?thesis using True by (simp add: dict_get_update kv) (simp add: dict_get_def)
  next
    case False
    then show ?thesis by (simp add: dict_get_update kv) (simp add: dict_get_def)
  qed
  finally show ?case .
qed

lemma fold_entries_keys:
  "fst ` set (fold (\<lambda>entry acc. add_scores acc (entry_scores entry)) recent acc)
     = fst ` set acc \<union> keys_of recent"
  by (induction recent arbitrary: acc) (auto simp: keys_of_def add_scores_keys)

lemma fold_entries_distinct:
  "distinct (map fst acc) \<Longrightarrow>
     distinct (map fst (fold (\<lambda>entry acc. add_scores acc (entry_scores entry)) recent acc))"
  by (induction recent arbitrary: acc) (simp_all add: add_scores_distinct)

lemma fold_entries_get:
  "\<forall>e \<in> set recent. distinct (map fst (entry_scores e)) \<Longrightarrow>
     dict_get (fold (\<lambda>entry acc. add_scores acc (entry_scores entry)) recent acc) k 0
       = dict_get acc k 0 + sum_list (map (\<lambda>e. score_in e k) recent)"
  by (induction recent arbitrary: acc) (simp_all add: add_scores_get score_in_def)

lemma sum_scores_keys: "fst ` set (sum_scores recent) = keys_of recent"
  by (simp add: sum_scores_def fold_entries_keys)

lemma sum_scores_distinct: "distinct (map fst (sum_scores recent))"
  by (simp add: sum_scores_def fold_entries_distinct)

lemma sum_scores_get:
  "\<forall>e \<in> set recent. distinct (map fst (entry_scores e)) \<Longrightarrow>
     dict_get (sum_scores recent) k 0 = sum_list (map (\<lambda>e. score_in e k) recent)"
  by (simp add: sum_scores_def fold_entries_get) (simp add: dict_get_def)

lemma score_in_nonneg: "wf_entry e \<Longrightarrow> 0 \<le> score_in e k"
proof (cases "map_of (entry_scores e) k")
  case None
  then show ?thesis by (simp add: score_in_def dict_get_def)
next
  case (Some v)
  assume "wf_entry e"
  moreover from Some have "(k, v) \<in> set (entry_scores e)" by (rule map_of_SomeD)
  ultimately have "0 \<le> v" by (auto simp: wf_entry_def)
  then show ?thesis using Some by (simp add: score_in_def dict_get_def)
qed

lemma sum_scores_nonneg:
  assumes wf: "\<forall>e \<in> set recent. wf_entry e" and mem: "(k, v) \<in> set (sum_scores recent)"
  shows "0 \<le> v"
proof -
  have "v = dict_get (sum_scores recent) k 0"
    using mem by (simp add: dict_get_member[OF sum_scores_distinct])
  also have "\<dots> = sum_list (map (\<lambda>e. score_in e k) recent)"
    using wf by (simp add: sum_scores_get wf_entry_def)
  also have "0 \<le> \<dots>"
    using wf by (auto intro!: sum_list_nonneg simp: score_in_nonneg)
  finally show ?thesis .
qed

lemma normalize_when_nonneg:
  assumes nonneg: "\<forall>(k, v) \<in> set al. (0::real) \<le> v"
  shows "(if sum_list (map snd al) > 0 then map (\<lambda>(k, v). (k, v / n)) al else al)
           = map (\<lambda>(k, v). (k, v / n)) al"
proof (cases "sum_list (map snd al) > 0")
  case True
  then show ?thesis by simp
next
  case False
  have nn: "\<And>x. x \<in> set (map snd al) \<Longrightarrow> 0 \<le> x" using nonneg by auto
  then have "0 \<le> sum_list (map snd al)" by (rule sum_list_nonneg)
  with False have "sum_list (map snd al) = 0" by simp
  then have "\<forall>x \<in> set (map snd al). x = 0"
    using nn sum_list_nonneg_eq_0_iff[of "map snd al"] by blast
  then have "map (\<lambda>(k, v). (k, v / n)) al = al"
    by (intro map_idI) auto
  then show ?thesis by simp
qed

lemma max_item_greatest:
  "max_item m xs \<in> set (m # xs) \<and> (\<forall>y \<in> set (m # xs). snd y \<le> snd (max_item m xs))"
proof (induction xs arbitrary: m)
  case Nil
  show ?case by simp
next
  case (Cons x xs)
  from Cons.IH[of "if snd x > snd m then x else m"] show ?case
    by (auto split: if_splits)
qed


lemma average_over_slice:
  assumes ne: "emotion_history d \<noteq> []"
      and wf: "\<forall>e \<in> set (slice_from (emotion_history d) (- w)). wf_entry e"
  shows "\<exists>r. get_average_emotion d w = Some r
             \<and> is_average_over (slice_from (emotion_history d) (- w)) r"
proof -
  define recent where "recent = slice_from (emotion_history d) (- w)"
  define fs where "fs = map (\<lambda>(k, v). (k, v / real (length recent))) (sum_scores recent)"
  define dominant where
    "dominant = (case fs of [] \<Rightarrow> ''neutral'' | x # xs \<Rightarrow> fst (max_item x xs))"
  define r where
    "r = \<lparr> avg_emotion = dominant, avg_scores = fs,
           avg_color = dict_get EMOTION_COLORS (lower dominant) (200, 200, 200) \<rparr>"
  have wf': "\<forall>e \<in> set recent. wf_entry e" using wf by (simp add: recent_def)
  have "\<forall>(k, v) \<in> set (sum_scores recent). 0 \<le> v"
    using sum_scores_nonneg[OF wf'] by auto
  then have norm:
    "(if sum_list (map snd (sum_scores recent)) > 0
      then map (\<lambda>(k, v). (k, v / real (length recent))) (sum_scores recent)
      else sum_scores recent) = fs"
    unfolding fs_def by (rule normalize_when_nonneg)
  have res: "get_average_emotion d w = Some r"
    using ne norm
    by (simp add: get_average_emotion_def Let_def recent_def[symmetric] r_def dominant_def)
  have keys: "fst ` set fs = keys_of recent"
    using sum_scores_keys[of recent] by (force simp: fs_def)
  have dist: "distinct (map fst fs)"
    using sum_scores_distinct[of recent]
    by (simp add: fs_def comp_def case_prod_unfold)
  have val: "map_of fs k
               = Some (sum_list (map (\<lambda>e. score_in e k) recent) / real (length recent))"
    if k: "k \<in> keys_of recent" for k
  proof -
    from k obtain v where v: "(k, v) \<in> set (sum_scores recent)"
      using sum_scores_keys[of recent] by force
    then have "v = dict_get (sum_scores recent) k 0"
      by (simp add: dict_get_member[OF sum_scores_distinct])
    also have "\<dots> = sum_list (map (\<lambda>e. score_in e k) recent)"
      using wf' by (simp add: sum_scores_get wf_entry_def)
    finally have "(k, sum_list (map (\<lambda>e. score_in e k) recent) / real (length recent)) \<in> set fs"
      using v by (force simp: fs_def)
    then show ?thesis using dist by simp
  qed
  have dom: "if keys_of recent = {} then dominant = ''neutral''
             else dominant \<in> keys_of recent
                  \<and> (\<forall>k \<in> keys_of recent. dict_get fs k 0 \<le> dict_get fs dominant 0)"
  proof (cases fs)
    case Nil
    then have "keys_of recent = {}" using keys by simp
    then show ?thesis by (simp add: dominant_def Nil)
  next
    case (Cons x xs)
    then have nonempty: "keys_of recent \<noteq> {}" using keys by auto
    have d: "dominant = fst (max_item x xs)" by (simp add: dominant_def Cons)
    from max_item_greatest[of x xs]
    have mem: "max_item x xs \<in> set fs"
      and great: "\<forall>y \<in> set fs. snd y \<le> snd (max_item x xs)"
      by (simp_all add: Cons)
    from mem have "dominant \<in> keys_of recent"
      unfolding d keys[symmetric] by (rule imageI)
    moreover have top: "dict_get fs dominant 0 = snd (max_item x xs)"
      unfolding d using mem by (intro dict_get_member[OF dist]) simp
    have "dict_get fs k 0 \<le> dict_get fs dominant 0" if "k \<in> keys_of recent" for k
    proof -
      from that obtain v where v: "(k, v) \<in> set fs" using keys by force
      then have "dict_get fs k 0 = v" by (rule dict_get_member[OF dist])
      moreover have "v \<le> snd (max_item x xs)" using great v by force
      ultimately show ?thesis by (simp add: top)
    qed
    ultimately show ?thesis using nonempty by simp
  qed
  have "is_average_over recent r"
    unfolding is_average_over_def using dist keys val dom by (simp add: r_def)
  with res show ?thesis unfolding recent_def by blast
qed

lemma slice_from_last:
  "0 < w \<Longrightarrow> slice_from xs (- w) = last_n (min (nat w) (length xs)) xs"
  by (auto simp: slice_from_def last_n_def Let_def max_def min_def nat_diff_distrib'
       intro: arg_cong[where f = "\<lambda>n. drop n xs"])

lemma slice_from_zero: "slice_from xs (- 0) = xs"
  by (simp add: slice_from_def)

lemma length_last_n: "length (last_n n xs) = min n (length xs)"
  by (simp add: last_n_def)


text \<open>The aggregation example, evaluated.\<close>

lemma two_observations_history:
  "detect_all new_detector two_observations =
     \<lparr> last_emotion = Some ''happy'',
       emotion_history =
         [\<lparr> entry_emotion = ''happy'', entry_scores = [(''happy'', 80), (''sad'', 20)],
            entry_color = (255, 200, 0) \<rparr>,
          \<lparr> entry_emotion = ''happy'', entry_scores = [(''happy'', 60), (''sad'', 40)],
            entry_color = (255, 200, 0) \<rparr>] \<rparr>"
  by (simp add: two_observations_def detect_all_def detect_emotion_def new_detector_def
        observation_def dict_get_def EMOTION_COLORS_def lower_def lower_char_def)

lemma two_observations_sum:
  "sum_scores
     [\<lparr> entry_emotion = ''happy'', entry_scores = [(''happy'', 80), (''sad'', 20)],
        entry_color = (255, 200, 0) \<rparr>,
      \<lparr> entry_emotion = ''happy'', entry_scores = [(''happy'', 60), (''sad'', 40)],
        entry_color = (255, 200, 0) \<rparr>]
   = [(''happy'', 140), (''sad'', 60)]"
  by (simp add: sum_scores_def add_scores_def dict_get_def)

lemma happy_color: "dict_get EMOTION_COLORS (lower ''happy'') (200, 200, 200) = (255, 200, 0)"
  by (simp add: dict_get_def EMOTION_COLORS_def lower_def lower_char_def)

lemma two_observations_average:
  "w = 2 \<or> w = 0 \<Longrightarrow>
   get_average_emotion (detect_all new_detector two_observations) w
     = Some \<lparr> avg_emotion = ''happy'', avg_scores = [(''happy'', 70), (''sad'', 30)],
              avg_color = (255, 200, 0) \<rparr>"
proof -
  assume "w = 2 \<or> w = 0"
  then have s: "slice_from (emotion_history (detect_all new_detector two_observations)) (- w)
           = emotion_history (detect_all new_detector two_observations)"
    by (auto simp: slice_from_def two_observations_history)
  show ?thesis
    unfolding get_average_emotion_def s
    by (simp add: two_observations_history two_observations_sum Let_def happy_color)
qed

text \<open>
  C4. \<open>get_average_emotion\<close> returns \<open>None\<close> exactly when the history is empty. For a
  non-empty history of well-formed entries (no key twice in a score dict, no negative
  score) and a positive window \<open>w\<close>, it returns the average of the last
  \<open>min w (length history)\<close> entries: for each key occurring in any of them, the sum of
  its scores over those entries, an entry without the key counting 0, divided by the
  number of those entries; the label is a key of greatest averaged score. For the
  observations happy 80, sad 20 and happy 60, sad 40 and window 2 it returns
  happy 70, sad 30 with label ``happy''.
\<close>

theorem C4_average_over_window:
  "(get_average_emotion d w = None \<longleftrightarrow> emotion_history d = [])
   \<and> (emotion_history d \<noteq> [] \<and> 0 < w \<and> (\<forall>e \<in> set (emotion_history d). wf_entry e) \<longrightarrow>
        (\<exists>r. get_average_emotion d w = Some r
            \<and> is_average_over
                (last_n (min (nat w) (length (emotion_history d))) (emotion_history d)) r))
   \<and> get_average_emotion (detect_all new_detector two_observations) 2
       = Some \<lparr> avg_emotion = ''happy'', avg_scores = [(''happy'', 70), (''sad'', 30)],
                avg_color = (255, 200, 0) \<rparr>"
proof (intro conjI impI)
  show "get_average_emotion d w = None \<longleftrightarrow> emotion_history d = []"
    by (simp add: get_average_emotion_def Let_def)
next
  assume a: "emotion_history d \<noteq> [] \<and> 0 < w \<and> (\<forall>e \<in> set (emotion_history d). wf_entry e)"
  then have s: "slice_from (emotion_history d) (- w)
                  = last_n (min (nat w) (length (emotion_history d))) (emotion_history d)"
    by (simp add: slice_from_last)
  have "\<forall>e \<in> set (slice_from (emotion_history d) (- w)). wf_entry e"
    using a by (auto simp: slice_from_def Let_def dest: in_set_dropD)
  with a have "\<exists>r. get_average_emotion d w = Some r
             \<and> is_average_over (slice_from (emotion_history d) (- w)) r"
    by (intro average_over_slice) simp_all
  then show "\<exists>r. get_average_emotion d w = Some r
            \<and> is_average_over
                (last_n (min (nat w) (length (emotion_history d))) (emotion_history d)) r"
    by (simp only: s)
next
  show "get_average_emotion (detect_all new_detector two_observations) 2
       = Some \<lparr> avg_emotion = ''happy'', avg_scores = [(''happy'', 70), (''sad'', 30)],
                avg_color = (255, 200, 0) \<rparr>"
    by (simp add: two_observations_average)
qed

text \<open>
  Witness: the example's detector satisfies the hypotheses, and the value returned for it
  is the average of its last two entries.
\<close>

theorem C4_witness:
  "emotion_history (detect_all new_detector two_observations) \<noteq> []
   \<and> (0::int) < 2
   \<and> list_all wf_entry (emotion_history (detect_all new_detector two_observations))
   \<and> is_average_over
        (last_n 2 (emotion_history (detect_all new_detector two_observations)))
        \<lparr> avg_emotion = ''happy'', avg_scores = [(''happy'', 70), (''sad'', 30)],
          avg_color = (255, 200, 0) \<rparr>"
proof -
  let ?d = "detect_all new_detector two_observations"
  have a: "emotion_history ?d \<noteq> []" by (simp add: two_observations_history)
  have b: "\<forall>e \<in> set (emotion_history ?d). wf_entry e"
    by (simp add: two_observations_history wf_entry_def)
  have n: "min (nat 2) (length (emotion_history ?d)) = 2"
    by (simp add: two_observations_history)
  note inst = C4_average_over_window[of ?d 2]
  from inst a b obtain r where r: "get_average_emotion ?d 2 = Some r"
    and avg: "is_average_over
                (last_n (min (nat 2) (length (emotion_history ?d))) (emotion_history ?d)) r"
    by auto
  from inst r have "r = \<lparr> avg_emotion = ''happy'', avg_scores = [(''happy'', 70), (''sad'', 30)],
          avg_color = (255, 200, 0) \<rparr>"
    by simp
  with avg n a b show ?thesis by (simp add: list_all_iff)
qed

text \<open>
  C10. With window 0 and a non-empty history, \<open>get_average_emotion\<close> does not return
  \<open>None\<close>: the slice \<open>history[-0:]\<close> is the whole history, so the result is the one
  for a window as long as the history, namely (for well-formed entries) the average of
  all recorded entries, each sum divided by the length of the history.
\<close>

theorem C10_window_zero_is_whole_history:
  "emotion_history d \<noteq> [] \<longrightarrow>
     get_average_emotion d 0 \<noteq> None
     \<and> get_average_emotion d 0 = get_average_emotion d (int (length (emotion_history d)))
     \<and> ((\<forall>e \<in> set (emotion_history d). wf_entry e) \<longrightarrow>
          (\<exists>r. get_average_emotion d 0 = Some r \<and> is_average_over (emotion_history d) r))"
proof (intro impI conjI)
  assume ne: "emotion_history d \<noteq> []"
  show "get_average_emotion d 0 \<noteq> None"
    using ne by (simp add: get_average_emotion_def Let_def)
  have "slice_from (emotion_history d) (- int (length (emotion_history d))) = emotion_history d"
    using ne by (simp add: slice_from_def)
  then show "get_average_emotion d 0 = get_average_emotion d (int (length (emotion_history d)))"
    by (simp add: get_average_emotion_def slice_from_zero[simplified])
  assume wf: "\<forall>e \<in> set (emotion_history d). wf_entry e"
  have z: "slice_from (emotion_history d) (- 0) = emotion_history d"
    by (rule slice_from_zero)
  from average_over_slice[of d 0] ne wf
  show "\<exists>r. get_average_emotion d 0 = Some r \<and> is_average_over (emotion_history d) r"
    unfolding z by simp
qed

text \<open>
  Witness: for the two observations of the aggregation example, window 0 gives the same
  result as window 2, the average of both entries.
\<close>

theorem C10_witness:
  "emotion_history (detect_all new_detector two_observations) \<noteq> []
   \<and> list_all wf_entry (emotion_history (detect_all new_detector two_observations))
   \<and> get_average_emotion (detect_all new_detector two_observations) 0
       = Some \<lparr> avg_emotion = ''happy'', avg_scores = [(''happy'', 70), (''sad'', 30)],
                avg_color = (255, 200, 0) \<rparr>
   \<and> get_average_emotion (detect_all new_detector two_observations) 0
       = get_average_emotion (detect_all new_detector two_observations) 2
   \<and> is_average_over (emotion_history (detect_all new_detector two_observations))
        \<lparr> avg_emotion = ''happy'', avg_scores = [(''happy'', 70), (''sad'', 30)],
          avg_color = (255, 200, 0) \<rparr>"
proof -
  let ?d = "detect_all new_detector two_observations"
  have a: "emotion_history ?d \<noteq> []" by (simp add: two_observations_history)
  have b: "\<forall>e \<in> set (emotion_history ?d). wf_entry e"
    by (simp add: two_observations_history wf_entry_def)
  have n: "int (length (emotion_history ?d)) = 2"
    by (simp add: two_observations_history)
  have v: "get_average_emotion ?d 0
       = Some \<lparr> avg_emotion = ''happy'', avg_scores = [(''happy'', 70), (''sad'', 30)],
                avg_color = (255, 200, 0) \<rparr>"
    by (simp add: two_observations_average)
  note inst = C10_window_zero_is_whole_history[of ?d]
  from inst a have e: "get_average_emotion ?d 0 = get_average_emotion ?d 2"
    unfolding n by blast
  from inst a b obtain r where r: "get_average_emotion ?d 0 = Some r"
    and avg: "is_average_over (emotion_history ?d) r"
    by blast
  from r v have "r = \<lparr> avg_emotion = ''happy'', avg_scores = [(''happy'', 70), (''sad'', 30)],
          avg_color = (255, 200, 0) \<rparr>"
    by simp
  with avg a b v e show ?thesis by (simp add: list_all_iff)
qed

end
